theory Spec2Isabelle
  imports Complex_Main "HOL-Library.Word"
begin

section \<open>Conventions\<close>

text \<open>
  The development embeds the image fingerprinting and ranking code of Vision-Match
  (\<^verbatim>\<open>utils/imageProcessor\<close>, \<^verbatim>\<open>routes/upload\<close>).

  \<^item> JavaScript numbers are modelled as exact reals: rounding of IEEE doubles is not part
    of the model.  Where the source can produce \<^verbatim>\<open>NaN\<close> or an infinity from a division
    by zero and the value is used afterwards, the model says so explicitly
    (\<open>None\<close> stands for \<^verbatim>\<open>NaN\<close>).
  \<^item> An argument that may be absent (\<^verbatim>\<open>null\<close>, \<^verbatim>\<open>undefined\<close>) is an \<open>option\<close>.
    An array is truthy in JavaScript, also the empty one, so \<^verbatim>\<open>!features\<close> holds
    exactly for \<open>None\<close>.
  \<^item> A raw pixel buffer (a Node \<^verbatim>\<open>Buffer\<close>) is a list of 8-bit words.
  \<^item> The image library \<^verbatim>\<open>sharp\<close> and \<^verbatim>\<open>Math.random\<close> are collaborators outside the
    repository; they are parameters of the functions that call them.
\<close>

type_synonym vec = "real list"
type_synonym byte = "8 word"
type_synonym buffer = "byte list"

section \<open>Similarity scoring: definitions\<close>

text \<open>
  \<^verbatim>\<open>for (let i = 0; i < features1.length; i++) { dotProduct += ...; norm1 += ...; norm2 += ... }\<close>
  The loops of the three metrics run over the indices of \<open>features1\<close>; their only caller,
  \<open>calculateAdvancedSimilarity\<close>, has checked that both vectors have the same length.
\<close>

definition cosineLoop :: "vec \<Rightarrow> vec \<Rightarrow> real \<times> real \<times> real" where
  "cosineLoop features1 features2 =
     foldl (\<lambda>(dotProduct, norm1, norm2) i.
              (dotProduct + features1 ! i * features2 ! i,
               norm1 + features1 ! i * features1 ! i,
               norm2 + features2 ! i * features2 ! i))
           (0, 0, 0) [0 ..< length features1]"

definition calculateCosineSimilarity :: "vec \<Rightarrow> vec \<Rightarrow> real" where
  "calculateCosineSimilarity features1 features2 =
     (case cosineLoop features1 features2 of (dotProduct, norm1, norm2) \<Rightarrow>
        if norm1 = 0 \<or> norm2 = 0 then 0
        else dotProduct / (sqrt norm1 * sqrt norm2))"

definition calculateEuclideanSimilarity :: "vec \<Rightarrow> vec \<Rightarrow> real" where
  "calculateEuclideanSimilarity features1 features2 =
     (let squaredSum = foldl (\<lambda>s i. s + (features1 ! i - features2 ! i)\<^sup>2) 0
                             [0 ..< length features1];
          distance = sqrt squaredSum
      in 1 / (1 + distance))"

definition correlationLoop :: "vec \<Rightarrow> vec \<Rightarrow> real \<Rightarrow> real \<Rightarrow> nat \<Rightarrow> real \<times> real \<times> real" where
  "correlationLoop features1 features2 mean1 mean2 n =
     foldl (\<lambda>(numerator, sum1Sq, sum2Sq) i.
              (let diff1 = features1 ! i - mean1; diff2 = features2 ! i - mean2
               in (numerator + diff1 * diff2, sum1Sq + diff1 * diff1, sum2Sq + diff2 * diff2)))
           (0, 0, 0) [0 ..< n]"

text \<open>
  For \<open>n = 0\<close> the two means are \<^verbatim>\<open>0 / 0 = NaN\<close> in JavaScript, but the loop body never
  runs and they are not read: the function returns 0 through \<^verbatim>\<open>denominator === 0\<close>.
\<close>

definition calculateCorrelationSimilarity :: "vec \<Rightarrow> vec \<Rightarrow> real" where
  "calculateCorrelationSimilarity features1 features2 =
     (let n = length features1;
          mean1 = foldl (\<lambda>sum val. sum + val) 0 features1 / real n;
          mean2 = foldl (\<lambda>sum val. sum + val) 0 features2 / real n
      in case correlationLoop features1 features2 mean1 mean2 n of
           (numerator, sum1Sq, sum2Sq) \<Rightarrow>
             (let denominator = sqrt (sum1Sq * sum2Sq)
              in if denominator = 0 then 0 else \<bar>numerator / denominator\<bar>))"

definition calculateAdvancedSimilarity :: "vec option \<Rightarrow> vec option \<Rightarrow> real" where
  "calculateAdvancedSimilarity f1 f2 =
     (case (f1, f2) of
        (Some features1, Some features2) \<Rightarrow>
          if length features1 \<noteq> length features2 then 0
          else
            (let cosineSim = calculateCosineSimilarity features1 features2;
                 euclideanSim = calculateEuclideanSimilarity features1 features2;
                 correlationSim = calculateCorrelationSimilarity features1 features2;
                 finalSimilarity = cosineSim * 0.5 + euclideanSim * 0.3 + correlationSim * 0.2
             in max 0 (min 1 finalSimilarity))
      | _ \<Rightarrow> 0)"

subsection \<open>The three metrics and their combination, as the specification words them\<close>

definition dotProduct_spec :: "vec \<Rightarrow> vec \<Rightarrow> real" where
  "dotProduct_spec a b = (\<Sum>(x, y)\<leftarrow>zip a b. x * y)"

definition norm_spec :: "vec \<Rightarrow> real" where
  "norm_spec a = sqrt (\<Sum>x\<leftarrow>a. x\<^sup>2)"

definition cosine_spec :: "vec \<Rightarrow> vec \<Rightarrow> real" where
  "cosine_spec a b =
     (if norm_spec a = 0 \<or> norm_spec b = 0 then 0
      else dotProduct_spec a b / (norm_spec a * norm_spec b))"

definition euclidean_spec :: "vec \<Rightarrow> vec \<Rightarrow> real" where
  "euclidean_spec a b = 1 / (1 + sqrt (\<Sum>(x, y)\<leftarrow>zip a b. (x - y)\<^sup>2))"

definition mean_spec :: "vec \<Rightarrow> real" where
  "mean_spec a = sum_list a / real (length a)"

definition variance_spec :: "vec \<Rightarrow> real" where
  "variance_spec a = (\<Sum>x\<leftarrow>a. (x - mean_spec a)\<^sup>2) / real (length a)"

definition covariance_spec :: "vec \<Rightarrow> vec \<Rightarrow> real" where
  "covariance_spec a b =
     (\<Sum>(x, y)\<leftarrow>zip a b. (x - mean_spec a) * (y - mean_spec b)) / real (length a)"

definition pearson_spec :: "vec \<Rightarrow> vec \<Rightarrow> real" where
  "pearson_spec a b = covariance_spec a b / (sqrt (variance_spec a) * sqrt (variance_spec b))"

definition correlation_spec :: "vec \<Rightarrow> vec \<Rightarrow> real" where
  "correlation_spec a b =
     (if variance_spec a = 0 \<or> variance_spec b = 0 then 0 else \<bar>pearson_spec a b\<bar>)"

definition clamp :: "real \<Rightarrow> real \<Rightarrow> real \<Rightarrow> real" where
  "clamp x lo hi = max lo (min hi x)"

definition combinedSimilarity_spec :: "vec \<Rightarrow> vec \<Rightarrow> real" where
  "combinedSimilarity_spec a b =
     clamp (0.5 * cosine_spec a b + 0.3 * euclidean_spec a b + 0.2 * correlation_spec a b) 0 1"

section \<open>Feature extraction: definitions\<close>

text \<open>
  Every extractor first asks \<^verbatim>\<open>sharp\<close> for a resampled copy of the 224 x 224 buffer
  (\<^verbatim>\<open>sharp(buf, {raw: ...}).resize(s, s)[.grayscale()].raw().toBuffer()\<close>).  The call
  either rejects (here \<open>None\<close>; the extractor's \<^verbatim>\<open>catch\<close> then runs) or yields a buffer.
  The first argument names the calling site, so that every call fails or succeeds
  on its own; the others are the input buffer, the target side and the grayscale flag.
\<close>

datatype sharpCall =
    CallProcessed | CallColorHistogram | CallEdgeFeatures | CallTextureFeatures
  | CallShapeFeatures | CallDominantColors | CallBrightness | CallContrast

type_synonym sharp = "sharpCall \<Rightarrow> buffer \<Rightarrow> nat \<Rightarrow> bool \<Rightarrow> buffer option"

text \<open>
  For a raw output \<^verbatim>\<open>sharp\<close> delivers \<open>s * s\<close> samples for a grayscale image and three
  per pixel otherwise, and the extractors index the buffer below that size only.  The
  theorems below do not depend on what a read outside a shorter buffer would yield.
\<close>

definition byteVal :: "byte \<Rightarrow> real" where
  "byteVal b = real (unat b)"

text \<open>\<^verbatim>\<open>new Array(n).fill(0)\<close>\<close>

definition zeros :: "nat \<Rightarrow> vec" where
  "zeros n = replicate n 0"

text \<open>
  \<^verbatim>\<open>histogram[index]++\<close>.  A negative index would only create a property named by it
  and leave the array's cells alone; an index past the end would extend the array, which
  cannot happen below, where every index is clamped to the last bin.
\<close>

definition increment :: "int \<Rightarrow> vec \<Rightarrow> vec" where
  "increment index histogram =
     (if 0 \<le> index \<and> index < int (length histogram)
      then histogram[nat index := histogram ! nat index + 1]
      else histogram)"

text \<open>The interior pixels, in the order of the two nested \<^verbatim>\<open>for\<close> loops (\<open>y\<close> outside).\<close>

definition interior :: "nat \<Rightarrow> nat \<Rightarrow> (nat \<times> nat) list" where
  "interior width height = [(y, x). y \<leftarrow> [1 ..< height - 1], x \<leftarrow> [1 ..< width - 1]]"

definition allPixels :: "nat \<Rightarrow> nat \<Rightarrow> (nat \<times> nat) list" where
  "allPixels width height = [(y, x). y \<leftarrow> [0 ..< height], x \<leftarrow> [0 ..< width]]"

subsection \<open>Colour histogram\<close>

text \<open>JavaScript's \<^verbatim>\<open>%\<close> on numbers: the remainder has the sign of the dividend.\<close>

definition jsRem :: "real \<Rightarrow> real \<Rightarrow> real" where
  "jsRem x y = x - y * of_int (if x / y < 0 then \<lceil>x / y\<rceil> else \<lfloor>x / y\<rfloor>)"

definition rgbToHsv :: "real \<Rightarrow> real \<Rightarrow> real \<Rightarrow> real \<times> real \<times> real" where
  "rgbToHsv r g b =
     (let mx = max (max r g) b;
          mn = min (min r g) b;
          diff = mx - mn;
          h0 = (if diff \<noteq> 0 then
                  (if mx = r then jsRem ((g - b) / diff) 6
                   else if mx = g then (b - r) / diff + 2
                   else (r - g) / diff + 4)
                else 0);
          h1 = h0 / 6;
          h = (if h1 < 0 then h1 + 1 else h1);
          s = (if mx = 0 then 0 else diff / mx);
          v = mx
      in (h, s, v))"

text \<open>
  \<^verbatim>\<open>for (let i = 0; i < sampleBuffer.length; i += 3)\<close>: one HSV pixel for every three
  samples (the length of a well-formed RGB buffer is a multiple of three).
\<close>

fun hsvPixels :: "buffer \<Rightarrow> (real \<times> real \<times> real) list" where
  "hsvPixels (r # g # b # rest) =
     rgbToHsv (byteVal r / 255) (byteVal g / 255) (byteVal b / 255) # hsvPixels rest"
| "hsvPixels _ = []"

text \<open>\<^verbatim>\<open>Math.min(Math.floor(x * bins), bins - 1)\<close>\<close>

definition floorBin :: "real \<Rightarrow> int \<Rightarrow> int" where
  "floorBin x bins = min \<lfloor>x * real_of_int bins\<rfloor> (bins - 1)"

definition extractColorHistogram :: "sharp \<Rightarrow> buffer \<Rightarrow> nat \<Rightarrow> nat \<Rightarrow> vec" where
  "extractColorHistogram sharp processedBuffer width height =
     (case sharp CallColorHistogram processedBuffer 128 False of
        None \<Rightarrow> zeros 1024
      | Some sampleBuffer \<Rightarrow>
          (let pixels = hsvPixels sampleBuffer;
               hBins = 16; sBins = 8; vBins = 8;
               histogram =
                 fold (\<lambda>(h, s, v) histogram.
                         (let hBin = floorBin h hBins;
                              sBin = floorBin s sBins;
                              vBin = floorBin v vBins;
                              index = hBin * sBins * vBins + sBin * vBins + vBin
                          in increment index histogram))
                      pixels (zeros (nat (hBins * sBins * vBins)));
               total = real (length pixels)
           in map (\<lambda>count. count / total) histogram))"

subsection \<open>Edge histogram (Sobel)\<close>

definition sobelX :: "real list" where
  "sobelX = [-1, 0, 1, -2, 0, 2, -1, 0, 1]"

definition sobelY :: "real list" where
  "sobelY = [-1, -2, -1, 0, 0, 0, 1, 2, 1]"

text \<open>
  The two inner loops over \<open>ky, kx \<in> {-1, 0, 1}\<close>; here \<open>ky\<close> and \<open>kx\<close> count from 0,
  so the pixel read is at \<open>(y + ky - 1, x + kx - 1)\<close> and the kernel index is \<open>ky * 3 + kx\<close>.
\<close>

definition sobelAt :: "buffer \<Rightarrow> nat \<Rightarrow> nat \<Rightarrow> nat \<Rightarrow> real \<times> real" where
  "sobelAt grayBuffer edgeWidth y x =
     fold (\<lambda>(ky, kx) (gx, gy).
             (let pixel = byteVal (grayBuffer ! ((y + ky - 1) * edgeWidth + (x + kx - 1)));
                  kernelIndex = ky * 3 + kx
              in (gx + pixel * sobelX ! kernelIndex, gy + pixel * sobelY ! kernelIndex)))
          [(ky, kx). ky \<leftarrow> [0 ..< 3], kx \<leftarrow> [0 ..< 3]] (0, 0)"

definition edgeStrengths :: "buffer \<Rightarrow> nat \<Rightarrow> nat \<Rightarrow> vec" where
  "edgeStrengths grayBuffer edgeWidth edgeHeight =
     map (\<lambda>i. let y = i div edgeWidth; x = i mod edgeWidth
               in if 1 \<le> y \<and> y < edgeHeight - 1 \<and> 1 \<le> x \<and> x < edgeWidth - 1
                  then (case sobelAt grayBuffer edgeWidth y x of (gx, gy) \<Rightarrow> sqrt (gx * gx + gy * gy))
                  else 0)
         [0 ..< edgeWidth * edgeHeight]"

text \<open>\<^verbatim>\<open>Math.max(...xs)\<close> of a non-empty array.\<close>

fun mathMax :: "real list \<Rightarrow> real" where
  "mathMax (x # xs) = foldl max x xs"
| "mathMax [] = 0"

definition extractEdgeFeatures :: "sharp \<Rightarrow> buffer \<Rightarrow> nat \<Rightarrow> nat \<Rightarrow> vec" where
  "extractEdgeFeatures sharp processedBuffer width height =
     (let edgeSize = 64 in
      case sharp CallEdgeFeatures processedBuffer edgeSize True of
        None \<Rightarrow> zeros 16
      | Some grayBuffer \<Rightarrow>
          (let edgeStrength = edgeStrengths grayBuffer edgeSize edgeSize;
               bins = 16;
               maxEdge = mathMax edgeStrength;
               edgeHist =
                 (if maxEdge > 0
                  then fold (\<lambda>strength edgeHist. increment (floorBin (strength / maxEdge) bins) edgeHist)
                            edgeStrength (zeros bins)
                  else zeros bins);
               total = real (length edgeStrength)
           in map (\<lambda>count. count / total) edgeHist))"

subsection \<open>Texture histogram (local binary pattern)\<close>

definition lbpNeighbors :: "buffer \<Rightarrow> nat \<Rightarrow> nat \<Rightarrow> nat \<Rightarrow> byte list" where
  "lbpNeighbors grayBuffer textureWidth y x =
     [grayBuffer ! ((y - 1) * textureWidth + (x - 1)),
      grayBuffer ! ((y - 1) * textureWidth + x),
      grayBuffer ! ((y - 1) * textureWidth + (x + 1)),
      grayBuffer ! (y * textureWidth + (x + 1)),
      grayBuffer ! ((y + 1) * textureWidth + (x + 1)),
      grayBuffer ! ((y + 1) * textureWidth + x),
      grayBuffer ! ((y + 1) * textureWidth + (x - 1)),
      grayBuffer ! (y * textureWidth + (x - 1))]"

definition lbpValueAt :: "buffer \<Rightarrow> nat \<Rightarrow> nat \<Rightarrow> nat \<Rightarrow> nat" where
  "lbpValueAt grayBuffer textureWidth y x =
     (let center = grayBuffer ! (y * textureWidth + x);
          neighbors = lbpNeighbors grayBuffer textureWidth y x
      in fold (\<lambda>i lbpValue. if unat (neighbors ! i) \<ge> unat center
                             then or lbpValue (push_bit i 1) else lbpValue)
              [0 ..< 8] 0)"

definition extractTextureFeatures :: "sharp \<Rightarrow> buffer \<Rightarrow> nat \<Rightarrow> nat \<Rightarrow> vec" where
  "extractTextureFeatures sharp processedBuffer width height =
     (let textureSize = 64 in
      case sharp CallTextureFeatures processedBuffer textureSize True of
        None \<Rightarrow> zeros 256
      | Some grayBuffer \<Rightarrow>
          (let lbpHistogram =
                 fold (\<lambda>(y, x) lbpHistogram.
                         increment (int (lbpValueAt grayBuffer textureSize y x)) lbpHistogram)
                      (interior textureSize textureSize) (zeros 256);
               total = real ((textureSize - 2) * (textureSize - 2))
           in map (\<lambda>count. count / total) lbpHistogram))"

subsection \<open>Shape descriptor (moments)\<close>

definition foreground :: "buffer \<Rightarrow> nat \<Rightarrow> real \<Rightarrow> bool" where
  "foreground binaryBuffer i threshold \<longleftrightarrow> byteVal (binaryBuffer ! i) > threshold"

definition calculatePerimeter :: "buffer \<Rightarrow> nat \<Rightarrow> nat \<Rightarrow> real \<Rightarrow> real" where
  "calculatePerimeter binaryBuffer width height threshold =
     fold (\<lambda>(y, x) perimeter.
             (let current = foreground binaryBuffer (y * width + x) threshold
              in if current then
                   (let neighbors =
                          [if y > 0 then foreground binaryBuffer ((y - 1) * width + x) threshold else False,
                           if x < width - 1 then foreground binaryBuffer (y * width + (x + 1)) threshold else False,
                           if y < height - 1 then foreground binaryBuffer ((y + 1) * width + x) threshold else False,
                           if x > 0 then foreground binaryBuffer (y * width + (x - 1)) threshold else False]
                    in if list_ex (\<lambda>neighbor. \<not> neighbor) neighbors then perimeter + 1 else perimeter)
                 else perimeter))
          (allPixels width height) 0"

record moments =
  m00 :: real
  m10 :: real
  m01 :: real
  m20 :: real
  m11 :: real
  m02 :: real

definition rawMoments :: "buffer \<Rightarrow> nat \<Rightarrow> nat \<Rightarrow> real \<Rightarrow> moments" where
  "rawMoments grayBuffer shapeWidth shapeHeight threshold =
     fold (\<lambda>(y, x) m.
             (let pixel = (if byteVal (grayBuffer ! (y * shapeWidth + x)) > threshold then 1 else 0 :: real)
              in \<lparr>m00 = m00 m + pixel,
                  m10 = m10 m + real x * pixel,
                  m01 = m01 m + real y * pixel,
                  m20 = m20 m + real x * real x * pixel,
                  m11 = m11 m + real x * real y * pixel,
                  m02 = m02 m + real y * real y * pixel\<rparr>))
          (allPixels shapeWidth shapeHeight)
          \<lparr>m00 = 0, m10 = 0, m01 = 0, m20 = 0, m11 = 0, m02 = 0\<rparr>"

definition extractShapeFeatures :: "sharp \<Rightarrow> buffer \<Rightarrow> nat \<Rightarrow> nat \<Rightarrow> vec" where
  "extractShapeFeatures sharp processedBuffer width height =
     (let shapeSize = 64 in
      case sharp CallShapeFeatures processedBuffer shapeSize True of
        None \<Rightarrow> zeros 7
      | Some grayBuffer \<Rightarrow>
          (let threshold = 128;
               m = rawMoments grayBuffer shapeSize shapeSize threshold
           in if m00 m = 0 then [0, 0, 0, 0, 0, 0, 0]
              else
                (let xc = m10 m / m00 m;
                     yc = m01 m / m00 m;
                     mu20 = m20 m / m00 m - xc * xc;
                     mu11 = m11 m / m00 m - xc * yc;
                     mu02 = m02 m / m00 m - yc * yc;
                     eta20 = mu20 / (m00 m)\<^sup>2;
                     eta11 = mu11 / (m00 m)\<^sup>2;
                     eta02 = mu02 / (m00 m)\<^sup>2;
                     hu1 = eta20 + eta02;
                     hu2 = (eta20 - eta02)\<^sup>2 + 4 * eta11 * eta11;
                     perimeter = calculatePerimeter grayBuffer shapeSize shapeSize threshold;
                     compactness = (if perimeter > 0 then (4 * pi * m00 m) / (perimeter * perimeter) else 0);
                     aspectRatio = (if mu20 > 0 \<and> mu02 > 0 then sqrt (mu20 / mu02) else 1)
                 in [hu1, hu2, compactness, aspectRatio, eta20, eta11, eta02])))"

subsection \<open>Dominant colours (k-means)\<close>

type_synonym rgb = "real \<times> real \<times> real"

fun rgbPixels :: "buffer \<Rightarrow> rgb list" where
  "rgbPixels (r # g # b # rest) = (byteVal r, byteVal g, byteVal b) # rgbPixels rest"
| "rgbPixels _ = []"

definition euclideanDistance :: "rgb \<Rightarrow> rgb \<Rightarrow> real" where
  "euclideanDistance point1 point2 =
     (case (point1, point2) of ((r1, g1, b1), (r2, g2, b2)) \<Rightarrow>
        sqrt ((r1 - r2)\<^sup>2 + (g1 - g2)\<^sup>2 + (b1 - b2)\<^sup>2))"

text \<open>
  The initial centroids: \<^verbatim>\<open>pixels[Math.floor(Math.random() * pixels.length)]\<close>, five
  times; \<open>random i\<close> is the \<open>i\<close>-th number drawn.  An index outside the array reads
  \<^verbatim>\<open>undefined\<close>, and spreading it (\<^verbatim>\<open>[...randomPixel]\<close>) throws: the result is \<open>None\<close>.
\<close>

definition initialCentroids :: "(nat \<Rightarrow> real) \<Rightarrow> rgb list \<Rightarrow> nat \<Rightarrow> rgb list option" where
  "initialCentroids random pixels k =
     fold (\<lambda>i centroids.
             case centroids of
               None \<Rightarrow> None
             | Some cs \<Rightarrow>
                 (let index = \<lfloor>random i * real (length pixels)\<rfloor>
                  in if 0 \<le> index \<and> index < int (length pixels)
                     then Some (cs @ [pixels ! nat index]) else None))
          [0 ..< k] (Some [])"

text \<open>
  The nearest centroid of a pixel: the first index of least distance (\<^verbatim>\<open>minDist\<close>
  starts at \<^verbatim>\<open>Infinity\<close>, here \<open>None\<close>, and is replaced on a strictly smaller distance).
\<close>

definition closestCluster :: "rgb list \<Rightarrow> rgb \<Rightarrow> nat" where
  "closestCluster centroids pixel =
     snd (fold (\<lambda>index (minDist, closest).
                  (let dist = euclideanDistance pixel (centroids ! index)
                   in if (case minDist of None \<Rightarrow> True | Some d \<Rightarrow> dist < d)
                      then (Some dist, index) else (minDist, closest)))
               [0 ..< length centroids] (None, 0))"

definition assignClusters :: "rgb list \<Rightarrow> rgb list \<Rightarrow> nat \<Rightarrow> rgb list list" where
  "assignClusters centroids pixels k =
     fold (\<lambda>pixel clusters.
             (let c = closestCluster centroids pixel
              in clusters[c := clusters ! c @ [pixel]]))
          pixels (replicate k [])"

definition updateCentroid :: "rgb list \<Rightarrow> rgb" where
  "updateCentroid cluster =
     (if length cluster = 0 then (0, 0, 0)
      else
        (case foldl (\<lambda>(a0, a1, a2) (p0, p1, p2). (a0 + p0, a1 + p1, a2 + p2)) (0, 0, 0) cluster of
           (s0, s1, s2) \<Rightarrow>
             (s0 / real (length cluster), s1 / real (length cluster), s2 / real (length cluster))))"

definition kMeansStep :: "rgb list \<Rightarrow> nat \<Rightarrow> rgb list \<Rightarrow> rgb list" where
  "kMeansStep pixels k centroids = map updateCentroid (assignClusters centroids pixels k)"

text \<open>\<^verbatim>\<open>centroids.flat()\<close>\<close>

definition flat :: "rgb list \<Rightarrow> vec" where
  "flat centroids = concat (map (\<lambda>(r, g, b). [r, g, b]) centroids)"

definition extractDominantColors :: "sharp \<Rightarrow> (nat \<Rightarrow> real) \<Rightarrow> buffer \<Rightarrow> nat \<Rightarrow> nat \<Rightarrow> vec" where
  "extractDominantColors sharp random processedBuffer width height =
     (let colorSize = 32 in
      case sharp CallDominantColors processedBuffer colorSize False of
        None \<Rightarrow> zeros 15
      | Some resizedBuffer \<Rightarrow>
          (let pixels = rgbPixels resizedBuffer;
               k = 5;
               maxIterations = 10
           in case initialCentroids random pixels k of
                None \<Rightarrow> zeros 15
              | Some centroids0 \<Rightarrow>
                  (let centroids = ((kMeansStep pixels k) ^^ maxIterations) centroids0
                   in map (\<lambda>val. val / 255) (flat centroids))))"

subsection \<open>Brightness and contrast\<close>

definition extractBrightnessFeatures :: "sharp \<Rightarrow> buffer \<Rightarrow> nat \<Rightarrow> nat \<Rightarrow> vec" where
  "extractBrightnessFeatures sharp processedBuffer width height =
     (let brightnessSize = 64 in
      case sharp CallBrightness processedBuffer brightnessSize True of
        None \<Rightarrow> [0, 0, 0]
      | Some grayBuffer \<Rightarrow>
          (let pixels = map byteVal grayBuffer;
               n = real (length pixels);
               mean = foldl (\<lambda>sum pixel. sum + pixel) 0 pixels / n;
               variance = foldl (\<lambda>sum pixel. sum + (pixel - mean)\<^sup>2) 0 pixels / n;
               skewness =
                 (if variance > 0
                  then foldl (\<lambda>sum pixel. sum + (pixel - mean) ^ 3) 0 pixels / (n * variance powr 1.5)
                  else 0)
           in [mean / 255, variance / (255 * 255), skewness]))"

definition localContrastAt :: "buffer \<Rightarrow> nat \<Rightarrow> nat \<Rightarrow> nat \<Rightarrow> real" where
  "localContrastAt grayBuffer contrastWidth y x =
     (let center = byteVal (grayBuffer ! (y * contrastWidth + x));
          neighbors =
            [byteVal (grayBuffer ! ((y - 1) * contrastWidth + x)),
             byteVal (grayBuffer ! (y * contrastWidth + (x + 1))),
             byteVal (grayBuffer ! ((y + 1) * contrastWidth + x)),
             byteVal (grayBuffer ! (y * contrastWidth + (x - 1)))]
      in foldl (\<lambda>sum neighbor. sum + \<bar>center - neighbor\<bar>) 0 neighbors / 4)"

definition extractContrastFeatures :: "sharp \<Rightarrow> buffer \<Rightarrow> nat \<Rightarrow> nat \<Rightarrow> vec" where
  "extractContrastFeatures sharp processedBuffer width height =
     (let contrastSize = 64 in
      case sharp CallContrast processedBuffer contrastSize True of
        None \<Rightarrow> [0]
      | Some grayBuffer \<Rightarrow>
          (case fold (\<lambda>(y, x) (totalContrast, contrastCount).
                        (totalContrast + localContrastAt grayBuffer contrastSize y x, contrastCount + 1))
                     (interior contrastSize contrastSize) (0, 0 :: nat) of
             (totalContrast, contrastCount) \<Rightarrow>
               (let avgContrast = (if contrastCount > 0 then totalContrast / real contrastCount else 0)
                in [avgContrast / 255])))"

subsection \<open>Combining the sub-vectors; the pipeline\<close>

record features =
  colorHistogram :: vec
  edgeFeatures :: vec
  textureFeatures :: vec
  shapeFeatures :: vec
  dominantColors :: vec
  brightness :: vec
  contrast :: vec

text \<open>
  \<^verbatim>\<open>Object.entries(features)\<close>: the own properties in the order in which the object
  literal of \<open>extractAdvancedFeatures\<close> creates them.
\<close>

definition entries :: "features \<Rightarrow> (string \<times> vec) list" where
  "entries f =
     [(''colorHistogram'', colorHistogram f),
      (''edgeFeatures'', edgeFeatures f),
      (''textureFeatures'', textureFeatures f),
      (''shapeFeatures'', shapeFeatures f),
      (''dominantColors'', dominantColors f),
      (''brightness'', brightness f),
      (''contrast'', contrast f)]"

definition weights :: "(string \<times> real) list" where
  "weights =
     [(''colorHistogram'', 0.3),
      (''dominantColors'', 0.25),
      (''edgeFeatures'', 0.15),
      (''textureFeatures'', 0.15),
      (''shapeFeatures'', 0.1),
      (''brightness'', 0.03),
      (''contrast'', 0.02)]"

text \<open>
  \<^verbatim>\<open>weights[featureType] || 0.1\<close>: a missing (or zero) weight is replaced by 0.1.  The
  lookup is modelled on the own properties of the \<^verbatim>\<open>weights\<close> literal.
\<close>

definition weightOf :: "string \<Rightarrow> real" where
  "weightOf featureType =
     (case map_of weights featureType of
        Some w \<Rightarrow> if w = 0 then 0.1 else w
      | None \<Rightarrow> 0.1)"

definition combineEntries :: "(string \<times> vec) list \<Rightarrow> vec" where
  "combineEntries es =
     fold (\<lambda>(featureType, featureVector) combined.
             (let weight = weightOf featureType;
                  weightedFeatures = map (\<lambda>val. val * weight) featureVector
              in combined @ weightedFeatures))
          es []"

definition combineFeatures :: "features \<Rightarrow> vec" where
  "combineFeatures f = combineEntries (entries f)"

text \<open>The object literal \<^verbatim>\<open>features = { colorHistogram: await ..., ... }\<close>.\<close>

definition extractFeatureSet :: "sharp \<Rightarrow> (nat \<Rightarrow> real) \<Rightarrow> buffer \<Rightarrow> features" where
  "extractFeatureSet sharp random processedBuffer =
     (let processedWidth = 224; processedHeight = 224 in
      \<lparr>colorHistogram = extractColorHistogram sharp processedBuffer processedWidth processedHeight,
       edgeFeatures = extractEdgeFeatures sharp processedBuffer processedWidth processedHeight,
       textureFeatures = extractTextureFeatures sharp processedBuffer processedWidth processedHeight,
       shapeFeatures = extractShapeFeatures sharp processedBuffer processedWidth processedHeight,
       dominantColors = extractDominantColors sharp random processedBuffer processedWidth processedHeight,
       brightness = extractBrightnessFeatures sharp processedBuffer processedWidth processedHeight,
       contrast = extractContrastFeatures sharp processedBuffer processedWidth processedHeight\<rparr>)"

datatype error = SharpError | DownloadError

text \<open>
  \<open>extractAdvancedFeatures\<close> rethrows what its first \<^verbatim>\<open>sharp\<close> call throws; nothing
  else in its body can throw, since every extractor catches its own failures.
\<close>

definition extractAdvancedFeatures :: "sharp \<Rightarrow> (nat \<Rightarrow> real) \<Rightarrow> buffer \<Rightarrow> error + vec" where
  "extractAdvancedFeatures sharp random imageBuffer =
     (case sharp CallProcessed imageBuffer 224 False of
        None \<Rightarrow> Inl SharpError
      | Some processedBuffer \<Rightarrow> Inr (combineFeatures (extractFeatureSet sharp random processedBuffer)))"

text \<open>
  \<open>extractFeaturesFromUrl\<close>: the download (\<^verbatim>\<open>axios\<close>) yields the image bytes or fails;
  any failure, of the download or of the extraction, is answered by the default vector
  \<^verbatim>\<open>new Array(1331).fill(0.001)\<close>.
\<close>

definition defaultFeatures :: vec where
  "defaultFeatures = replicate 1331 0.001"

definition extractFeaturesFromUrl :: "sharp \<Rightarrow> (nat \<Rightarrow> real) \<Rightarrow> buffer option \<Rightarrow> vec" where
  "extractFeaturesFromUrl sharp random download =
     (case download of
        None \<Rightarrow> defaultFeatures
      | Some imageBuffer \<Rightarrow>
          (case extractAdvancedFeatures sharp random imageBuffer of
             Inl e \<Rightarrow> defaultFeatures
           | Inr fs \<Rightarrow> fs))"

section \<open>Ranking and matching: definitions\<close>

text \<open>
  A catalogue item (a Mongoose document), reduced to the fields the ranking code reads;
  \<open>productId\<close> is \<^verbatim>\<open>_id.toString()\<close>.
\<close>

record product =
  productId :: string
  category :: string
  price :: real
  colorFeatures :: vec

text \<open>
  A scored candidate: \<^verbatim>\<open>{...product.toObject(), similarity, baseSimilarity, categoryMatch,
  priceRange}\<close>, with the properties the later stages add (absent until then).  The type
  of \<open>similarity\<close> is a parameter: before the filter of \<open>findAdvancedSimilarProducts\<close> it
  is \<open>real option\<close>, where \<open>None\<close> stands for \<^verbatim>\<open>NaN\<close>; the filter
  \<^verbatim>\<open>similarity > 0.15\<close> lets no \<^verbatim>\<open>NaN\<close> through, so afterwards it is \<open>real\<close>.
\<close>

record 'n ranked =
  item :: product
  similarity :: 'n
  baseSimilarity :: real
  categoryMatch :: bool
  priceRange :: string
  matchType :: "string option"
  inferredPriceRange :: "string option"
  matchStrategy :: "string option"
  originalSimilarity :: "real option"


subsection \<open>Library functions of JavaScript\<close>

text \<open>
  \<^verbatim>\<open>String.prototype.toLowerCase\<close> on the ASCII letters (bytes outside \<open>A..Z\<close> are
  left as they are).
\<close>

definition toLowerChar :: "char \<Rightarrow> char" where
  "toLowerChar c =
     (let n = of_char c :: nat in if 65 \<le> n \<and> n \<le> 90 then char_of (n + 32) else c)"

definition toLowerCase :: "string \<Rightarrow> string" where
  "toLowerCase s = map toLowerChar s"



text \<open>\<^verbatim>\<open>features[i] || 0\<close>: a read outside the array is \<^verbatim>\<open>undefined\<close>, hence 0.\<close>

definition indexOr0 :: "vec \<Rightarrow> int \<Rightarrow> real" where
  "indexOr0 xs i = (if 0 \<le> i \<and> i < int (length xs) then xs ! nat i else 0)"

subsection \<open>imageProcessor: findAdvancedSimilarProducts and its helpers\<close>

definition inferCategoryFromFeatures :: "vec option \<Rightarrow> string option" where
  "inferCategoryFromFeatures features =
     (case features of
        None \<Rightarrow> None
      | Some fs \<Rightarrow>
          if length fs = 0 then None
          else
            (let avgBrightness = indexOr0 fs (int (length fs) - 3);
                 avgContrast = indexOr0 fs (int (length fs) - 1)
             in if avgBrightness > 0.8 \<and> avgContrast < 0.3 then Some ''Electronics''
                else if avgBrightness < 0.4 then Some ''Fashion''
                else if avgContrast > 0.6 then Some ''Tools''
                else None))"

text \<open>
  \<open>calculatePriceRelevance\<close> divides by the average price.  For an average of 0 the
  quotient is \<^verbatim>\<open>NaN\<close> (\<open>0 / 0\<close>, result \<open>None\<close>) or \<^verbatim>\<open>Infinity\<close> (then
  \<^verbatim>\<open>Math.max(0, 1 - Infinity)\<close> is 0).
\<close>

definition calculatePriceRelevance :: "real \<Rightarrow> product list \<Rightarrow> real option" where
  "calculatePriceRelevance productPrice allProducts =
     (let prices = map price allProducts;
          avgPrice = foldl (\<lambda>sum amount. sum + amount) 0 prices / real (length prices)
      in if prices = [] then None
         else if avgPrice = 0 then (if productPrice - avgPrice = 0 then None else Some 0)
         else (let priceDeviation = \<bar>productPrice - avgPrice\<bar> / avgPrice
               in Some (max 0 (1 - priceDeviation))))"

definition getPriceRange :: "real \<Rightarrow> string" where
  "getPriceRange amount =
     (if amount < 30 then ''budget''
      else if amount < 100 then ''mid-range''
      else if amount < 300 then ''premium''
      else ''luxury'')"

text \<open>The callback of \<^verbatim>\<open>products.map\<close> in \<open>findAdvancedSimilarProducts\<close>.\<close>

definition scoreProduct :: "vec option \<Rightarrow> product list \<Rightarrow> real \<Rightarrow> product \<Rightarrow> real option ranked" where
  "scoreProduct uploadedFeatures products categoryBoost product =
     (let baseSimilarity0 = calculateAdvancedSimilarity uploadedFeatures (Some (colorFeatures product));
          inferredCategory = inferCategoryFromFeatures uploadedFeatures;
          baseSimilarity =
            (if (case inferredCategory of
                   None \<Rightarrow> False
                 | Some c \<Rightarrow> c \<noteq> [] \<and> toLowerCase (category product) = toLowerCase c)
             then baseSimilarity0 + categoryBoost else baseSimilarity0);
          priceWeight = calculatePriceRelevance (price product) products
      in \<lparr>item = product,
          similarity = map_option (\<lambda>w. min 1 (baseSimilarity + w * 0.05)) priceWeight,
          baseSimilarity = baseSimilarity,
          categoryMatch = (inferredCategory = Some (category product)),
          priceRange = getPriceRange (price product),
          matchType = None, inferredPriceRange = None, matchStrategy = None,
          originalSimilarity = None\<rparr>)"





subsection \<open>routes/upload: the search strategies, their merge and the confidence\<close>











definition calculateSearchConfidence :: "real ranked list \<Rightarrow> real" where
  "calculateSearchConfidence results =
     (if length results = 0 then 0
      else
        (let topSimilarity = similarity (results ! 0);
             avgSimilarity = foldl (\<lambda>sum p. sum + similarity p) 0 results / real (length results);
             similarityVariance =
               foldl (\<lambda>sum p. sum + (similarity p - avgSimilarity)\<^sup>2) 0 results
                 / real (length results);
             topScore = min (topSimilarity * 2) 1;
             consistencyScore = max 0 (1 - similarityVariance * 10);
             quantityScore = min (real (length results) / 10) 1
         in topScore * 0.5 + consistencyScore * 0.3 + quantityScore * 0.2))"



subsection \<open>The confidence, as the specification words it\<close>

definition populationVariance_spec :: "real list \<Rightarrow> real" where
  "populationVariance_spec xs =
     (\<Sum>x\<leftarrow>xs. (x - sum_list xs / real (length xs))\<^sup>2) / real (length xs)"

definition confidence_spec :: "real list \<Rightarrow> real" where
  "confidence_spec scores =
     (if scores = [] then 0
      else 0.5 * min (2 * hd scores) 1
         + 0.3 * max 0 (1 - 10 * populationVariance_spec scores)
         + 0.2 * min (real (length scores) / 10) 1)"

subsection \<open>Descending order of the scores\<close>


section \<open>Concrete inputs\<close>













section \<open>Similarity scoring: theorems\<close>

subsection \<open>The loops as sums\<close>

lemma foldl_upt_sum:
  "foldl (\<lambda>s i. s + f i) a [0 ..< n] = a + (\<Sum>i<n. f i)" for f :: "nat \<Rightarrow> real"
  by (induction n) simp_all

lemma foldl_upt_sum3:
  "foldl (\<lambda>(a, b, c) i. (a + f i, b + g i, c + h i)) (a0, b0, c0) [0 ..< n]
     = (a0 + (\<Sum>i<n. f i), b0 + (\<Sum>i<n. g i), c0 + (\<Sum>i<n. h i))"
  for f g h :: "nat \<Rightarrow> real"
  by (induction n) simp_all

lemma foldl_plus_sum_list: "foldl (\<lambda>sum val. sum + val) a xs = a + sum_list xs" for a :: real
  by (induction xs arbitrary: a) simp_all

lemma sum_list_nth: "(\<Sum>x\<leftarrow>xs. f x) = (\<Sum>i<length xs. f (xs ! i))" for f :: "'a \<Rightarrow> real"
  by (simp add: sum_list_sum_nth atLeast0LessThan)

lemma sum_list_zip_nth:
  "length a = length b \<Longrightarrow> (\<Sum>(x, y)\<leftarrow>zip a b. f x y) = (\<Sum>i<length a. f (a ! i) (b ! i))"
  for f :: "'a \<Rightarrow> 'b \<Rightarrow> real"
  using sum_list_nth [of "\<lambda>(x, y). f x y" "zip a b"] by simp

lemma cosineLoop_sum:
  "cosineLoop a b = ((\<Sum>i<length a. a ! i * b ! i), (\<Sum>i<length a. a ! i * a ! i),
                     (\<Sum>i<length a. b ! i * b ! i))"
  unfolding cosineLoop_def
  using foldl_upt_sum3 [of "\<lambda>i. a ! i * b ! i" "\<lambda>i. a ! i * a ! i" "\<lambda>i. b ! i * b ! i" 0 0 0 "length a"]
  by simp

lemma correlationLoop_sum:
  "correlationLoop a b m1 m2 n =
     ((\<Sum>i<n. (a ! i - m1) * (b ! i - m2)), (\<Sum>i<n. (a ! i - m1) * (a ! i - m1)),
      (\<Sum>i<n. (b ! i - m2) * (b ! i - m2)))"
  unfolding correlationLoop_def Let_def
  using foldl_upt_sum3 [of "\<lambda>i. (a ! i - m1) * (b ! i - m2)" "\<lambda>i. (a ! i - m1) * (a ! i - m1)"
      "\<lambda>i. (b ! i - m2) * (b ! i - m2)" 0 0 0 n]
  by simp

subsection \<open>The code computes the metrics of the specification\<close>

lemma cosine_refines:
  assumes "length a = length b"
  shows "calculateCosineSimilarity a b = cosine_spec a b"
proof -
  have na: "(\<Sum>x\<leftarrow>a. x\<^sup>2) = (\<Sum>i<length a. a ! i * a ! i)"
    by (simp add: sum_list_nth power2_eq_square)
  have nb: "(\<Sum>x\<leftarrow>b. x\<^sup>2) = (\<Sum>i<length a. b ! i * b ! i)"
    using assms by (simp add: sum_list_nth power2_eq_square)
  have d: "dotProduct_spec a b = (\<Sum>i<length a. a ! i * b ! i)"
    unfolding dotProduct_spec_def using assms by (rule sum_list_zip_nth)
  show ?thesis
    by (simp add: calculateCosineSimilarity_def cosineLoop_sum cosine_spec_def norm_spec_def na nb d)
qed

lemma euclidean_refines:
  assumes "length a = length b"
  shows "calculateEuclideanSimilarity a b = euclidean_spec a b"
  using assms
  by (simp add: calculateEuclideanSimilarity_def euclidean_spec_def foldl_upt_sum sum_list_zip_nth)

lemma correlation_refines:
  assumes "length a = length b"
  shows "calculateCorrelationSimilarity a b = correlation_spec a b"
proof (cases "length a = 0")
  case True
  then show ?thesis using assms
    by (simp add: calculateCorrelationSimilarity_def correlationLoop_sum correlation_spec_def
        variance_spec_def)
next
  case False
  define n where "n = length a"
  have n: "0 < real n" using False by (simp add: n_def)
  define s1 where "s1 = (\<Sum>i<n. (a ! i - mean_spec a) * (a ! i - mean_spec a))"
  define s2 where "s2 = (\<Sum>i<n. (b ! i - mean_spec b) * (b ! i - mean_spec b))"
  define nu where "nu = (\<Sum>i<n. (a ! i - mean_spec a) * (b ! i - mean_spec b))"
  have va: "variance_spec a = s1 / real n"
    by (simp add: variance_spec_def sum_list_nth power2_eq_square s1_def n_def)
  have vb: "variance_spec b = s2 / real n"
    using assms by (simp add: variance_spec_def sum_list_nth power2_eq_square s2_def n_def)
  have cv: "covariance_spec a b = nu / real n"
    using assms by (simp add: covariance_spec_def sum_list_zip_nth nu_def n_def)
  have code: "calculateCorrelationSimilarity a b =
      (if sqrt (s1 * s2) = 0 then 0 else \<bar>nu / sqrt (s1 * s2)\<bar>)"
    using assms
    by (simp add: calculateCorrelationSimilarity_def correlationLoop_sum Let_def
        foldl_plus_sum_list mean_spec_def s1_def s2_def nu_def n_def)
  have den: "sqrt (s1 / real n) * sqrt (s2 / real n) = sqrt (s1 * s2) / real n"
    using n by (simp add: real_sqrt_mult [symmetric] real_sqrt_divide real_sqrt_mult_self)
  have pe: "pearson_spec a b = nu / sqrt (s1 * s2)"
    unfolding pearson_spec_def va vb cv den using n by simp
  have z: "(variance_spec a = 0 \<or> variance_spec b = 0) \<longleftrightarrow> sqrt (s1 * s2) = 0"
    using n by (simp add: va vb)
  show ?thesis
    unfolding code correlation_spec_def pe using z by simp
qed

lemma calculateAdvancedSimilarity_refines:
  assumes "length a = length b"
  shows "calculateAdvancedSimilarity (Some a) (Some b) = combinedSimilarity_spec a b"
  using assms
  by (simp add: calculateAdvancedSimilarity_def combinedSimilarity_spec_def clamp_def
      cosine_refines euclidean_refines correlation_refines Let_def)





lemma cosine_spec_sym: "length a = length b \<Longrightarrow> cosine_spec a b = cosine_spec b a"
  by (auto simp add: cosine_spec_def dotProduct_spec_def sum_list_zip_nth mult.commute)

lemma euclidean_spec_sym: "length a = length b \<Longrightarrow> euclidean_spec a b = euclidean_spec b a"
  by (simp add: euclidean_spec_def sum_list_zip_nth power2_commute)

lemma correlation_spec_sym: "length a = length b \<Longrightarrow> correlation_spec a b = correlation_spec b a"
  by (auto simp add: correlation_spec_def pearson_spec_def covariance_spec_def sum_list_zip_nth
      mult.commute)

subsection \<open>Absent, empty and mismatched inputs\<close>

text \<open>
  Claim C2 says that \<open>calculateAdvancedSimilarity\<close> returns 0 whenever an input is absent
  or empty or the lengths differ, in particular for two empty vectors.  Two empty arrays
  pass the guard (an empty array is truthy and the lengths agree); the cosine and the
  correlation are then 0, the Euclidean similarity is \<open>1 / (1 + 0)\<close>, and the
  result is 0.3.
\<close>

theorem calculateAdvancedSimilarity_empty_empty:
  "calculateAdvancedSimilarity (Some []) (Some []) = 3 / 10
   \<and> calculateAdvancedSimilarity (Some []) (Some []) \<noteq> 0"
  by (simp add: calculateAdvancedSimilarity_def calculateCosineSimilarity_def cosineLoop_def
      calculateEuclideanSimilarity_def calculateCorrelationSimilarity_def correlationLoop_def)

text \<open>
  Claim C2, amended: \<open>calculateAdvancedSimilarity\<close> returns exactly 0 whenever either
  input is absent or the two vectors have different lengths (so also when exactly one of
  them is empty).
\<close>

theorem calculateAdvancedSimilarity_absent_or_mismatch:
  assumes "f1 = None \<or> f2 = None
           \<or> (\<exists>a b. f1 = Some a \<and> f2 = Some b \<and> length a \<noteq> length b)"
  shows "calculateAdvancedSimilarity f1 f2 = 0"
  using assms by (auto simp add: calculateAdvancedSimilarity_def split: option.split)

theorem calculateAdvancedSimilarity_absent_or_mismatch_witness:
  "calculateAdvancedSimilarity (Some [1, 2]) (Some []) = 0
   \<and> calculateAdvancedSimilarity None (Some [1, 2]) = 0"
  using calculateAdvancedSimilarity_absent_or_mismatch [of "Some [1, 2]" "Some []"]
    calculateAdvancedSimilarity_absent_or_mismatch [of None "Some [1, 2]"]
  by simp

subsection \<open>The combined score\<close>





text \<open>
  Claim C6: the similarity is symmetric, for all inputs (absent, mismatched or not).
\<close>

theorem calculateAdvancedSimilarity_symmetric:
  "calculateAdvancedSimilarity f1 f2 = calculateAdvancedSimilarity f2 f1"
proof (cases f1)
  case None
  then show ?thesis by (simp add: calculateAdvancedSimilarity_def split: option.split)
next
  case a: (Some a)
  show ?thesis
  proof (cases f2)
    case None
    then show ?thesis by (simp add: calculateAdvancedSimilarity_def split: option.split)
  next
    case b: (Some b)
    show ?thesis
    proof (cases "length a = length b")
      case True
      then show ?thesis
        unfolding a b
        by (simp add: calculateAdvancedSimilarity_refines combinedSimilarity_spec_def
            cosine_spec_sym euclidean_spec_sym correlation_spec_sym)
    next
      case False
      then show ?thesis unfolding a b by (simp add: calculateAdvancedSimilarity_def)
    qed
  qed
qed

section \<open>Feature extraction: theorems\<close>

subsection \<open>The histogram indices stay inside the arrays\<close>

lemma floorBin_le: "floorBin x bins \<le> bins - 1"
  by (simp add: floorBin_def)

lemma colorIndex_le:
  "floorBin h 16 * 8 * 8 + floorBin s 8 * 8 + floorBin v 8 \<le> 1023"
  using floorBin_le [of h 16] floorBin_le [of s 8] floorBin_le [of v 8] by simp

lemma or_nat_less:
  fixes a b :: nat
  assumes "a < 2 ^ n" and "b < 2 ^ n"
  shows "or a b < 2 ^ n"
proof -
  have "or (int a) (int b) < 2 ^ n"
    by (rule OR_upper) (use assms in simp_all)
  then have "int (or a b) < int (2 ^ n)"
    by (simp add: of_nat_or_eq)
  then show ?thesis
    by (simp only: of_nat_less_iff)
qed

lemma lbpValueAt_less: "lbpValueAt g w y x < 256"
proof -
  have step: "fold (\<lambda>i lbpValue. if P i then or lbpValue (push_bit i 1) else lbpValue) is v < 2 ^ 8"
    if "v < 2 ^ 8" and "\<forall>i \<in> set is. i < 8" for P "is" and v :: nat
    using that
  proof (induction "is" arbitrary: v)
    case Nil
    then show ?case by simp
  next
    case (Cons i "is")
    have "i < 8" using Cons.prems(2) by simp
    then have "(2::nat) ^ i < 2 ^ 8"
      by (intro power_strict_increasing) simp_all
    then have "push_bit i (1::nat) < 2 ^ 8"
      by (simp only: push_bit_of_1)
    then have "or v (push_bit i 1) < 2 ^ 8"
      using Cons.prems(1) by (intro or_nat_less)
    then show ?case
      using Cons.IH [of "or v (push_bit i 1)"] Cons.IH [of v] Cons.prems
      by (simp del: push_bit_of_1)
  qed
  show ?thesis
    unfolding lbpValueAt_def Let_def
    using step [of 0 "[0 ..< 8]"] by simp
qed

subsection \<open>The lengths of the sub-vectors\<close>

lemma length_increment [simp]: "length (increment i h) = length h"
  by (simp add: increment_def)

lemma length_zeros [simp]: "length (zeros n) = n"
  by (simp add: zeros_def)

lemma length_fold_increment:
  "length (fold (\<lambda>x h. increment (f x) h) xs h0) = length h0"
  by (induction xs arbitrary: h0) simp_all

lemma length_extractColorHistogram:
  "length (extractColorHistogram sharp pb w h) = 1024"
proof (cases "sharp CallColorHistogram pb 128 False")
  case None
  then show ?thesis by (simp add: extractColorHistogram_def)
next
  case (Some sampleBuffer)
  have "length (fold (\<lambda>p hist. increment
           (case p of (h, s, v) \<Rightarrow> floorBin h 16 * 8 * 8 + floorBin s 8 * 8 + floorBin v 8) hist)
         (hsvPixels sampleBuffer) (zeros 1024)) = 1024"
    by (simp add: length_fold_increment)
  then show ?thesis using Some
    by (simp add: extractColorHistogram_def Let_def case_prod_unfold)
qed

lemma length_extractEdgeFeatures:
  "length (extractEdgeFeatures sharp pb w h) = 16"
  by (simp add: extractEdgeFeatures_def Let_def length_fold_increment split: option.split)

lemma length_extractTextureFeatures:
  "length (extractTextureFeatures sharp pb w h) = 256"
proof -
  have "length (fold (\<lambda>p hist. increment (int (lbpValueAt g 64 (fst p) (snd p))) hist) xs (zeros 256)) = 256"
    for g xs
    by (simp add: length_fold_increment)
  then show ?thesis
    by (simp add: extractTextureFeatures_def Let_def case_prod_unfold split: option.split)
qed

lemma length_extractShapeFeatures:
  "length (extractShapeFeatures sharp pb w h) = 7"
  by (simp add: extractShapeFeatures_def Let_def split: option.split)

lemma length_flat: "length (flat cs) = 3 * length cs"
  by (induction cs) (auto simp add: flat_def)

lemma length_assignClusters: "length (assignClusters cs pixels k) = k"
proof -
  have "length (fold (\<lambda>pixel clusters. let c = closestCluster cs pixel
              in clusters[c := clusters ! c @ [pixel]]) pixels acc) = length acc" for acc
    by (induction pixels arbitrary: acc) (simp_all add: Let_def)
  then show ?thesis by (simp add: assignClusters_def)
qed

lemma length_kMeansStep: "length (kMeansStep pixels k cs) = k"
  by (simp add: kMeansStep_def length_assignClusters)

lemma length_kMeans_iterate:
  "length cs = k \<Longrightarrow> length (((kMeansStep pixels k) ^^ n) cs) = k"
  by (induction n) (simp_all add: length_kMeansStep)

lemma initialCentroids_fold_length:
  "fold (\<lambda>i centroids. case centroids of None \<Rightarrow> None
           | Some cs \<Rightarrow> (let index = \<lfloor>random i * real (length pixels)\<rfloor>
                in if 0 \<le> index \<and> index < int (length pixels)
                   then Some (cs @ [pixels ! nat index]) else None)) is acc = Some out
   \<Longrightarrow> \<exists>cs. acc = Some cs \<and> length out = length cs + length is"
proof (induction "is" arbitrary: acc)
  case Nil
  then show ?case by simp
next
  case (Cons i "is")
  from Cons.IH [OF Cons.prems [simplified]] show ?case
    by (auto simp add: Let_def split: option.splits if_splits)
qed

lemma length_initialCentroids:
  "initialCentroids random pixels k = Some cs \<Longrightarrow> length cs = k"
  unfolding initialCentroids_def by (drule initialCentroids_fold_length) simp

lemma length_extractDominantColors:
  "length (extractDominantColors sharp random pb w h) = 15"
  by (auto simp add: extractDominantColors_def Let_def length_flat length_kMeans_iterate
      length_initialCentroids split: option.split)

lemma length_extractBrightnessFeatures:
  "length (extractBrightnessFeatures sharp pb w h) = 3"
  by (simp add: extractBrightnessFeatures_def Let_def split: option.split)

lemma length_extractContrastFeatures:
  "length (extractContrastFeatures sharp pb w h) = 1"
  by (simp add: extractContrastFeatures_def Let_def split: option.split prod.split)

lemma combineEntries_fold:
  "fold (\<lambda>(featureType, featureVector) combined.
           combined @ map (\<lambda>val. val * weightOf featureType) featureVector) es acc
   = acc @ concat (map (\<lambda>(featureType, featureVector).
                          map (\<lambda>val. val * weightOf featureType) featureVector) es)"
  by (induction es arbitrary: acc) auto

lemma combineEntries_concat:
  "combineEntries es =
     concat (map (\<lambda>(featureType, featureVector).
                    map (\<lambda>val. val * weightOf featureType) featureVector) es)"
  by (simp add: combineEntries_def Let_def combineEntries_fold)

lemma weightOf_table:
  "weightOf ''colorHistogram'' = 0.3" "weightOf ''edgeFeatures'' = 0.15"
  "weightOf ''textureFeatures'' = 0.15" "weightOf ''shapeFeatures'' = 0.1"
  "weightOf ''dominantColors'' = 0.25" "weightOf ''brightness'' = 0.03"
  "weightOf ''contrast'' = 0.02"
  by (simp_all add: weightOf_def weights_def)


lemma combineFeatures_concat:
  "combineFeatures f =
     map (\<lambda>val. val * 0.3) (colorHistogram f) @ map (\<lambda>val. val * 0.15) (edgeFeatures f)
     @ map (\<lambda>val. val * 0.15) (textureFeatures f) @ map (\<lambda>val. val * 0.1) (shapeFeatures f)
     @ map (\<lambda>val. val * 0.25) (dominantColors f) @ map (\<lambda>val. val * 0.03) (brightness f)
     @ map (\<lambda>val. val * 0.02) (contrast f)"
  by (simp add: combineFeatures_def combineEntries_concat entries_def weightOf_table)


lemma byteVal_range: "0 \<le> byteVal b \<and> byteVal b \<le> 255"
proof -
  have "unat b < 2 ^ 8" using unsigned_less [of b] by simp
  then have "unat b \<le> 255" by simp
  then have "real (unat b) \<le> real 255" by (rule of_nat_mono)
  then have "real (unat b) \<le> 255" by (simp del: of_nat_unat)
  moreover have "0 \<le> real (unat b)" by (rule of_nat_0_le_iff)
  ultimately show ?thesis unfolding byteVal_def by (rule conjI [rotated])
qed

lemma foldl_add_sum_list:
  "foldl (\<lambda>sum x. sum + g x) a xs = a + sum_list (map g xs)" for a :: real
  by (induction xs arbitrary: a) simp_all

lemma sum_list_map_bounds:
  assumes "\<And>x. x \<in> set xs \<Longrightarrow> lo \<le> g x \<and> g x \<le> hi"
  shows "lo * real (length xs) \<le> sum_list (map g xs) \<and> sum_list (map g xs) \<le> hi * real (length xs)"
  using assms by (induction xs) (auto simp add: algebra_simps, force+)

lemma variance_bounds:
  fixes pixels :: "real list"
  assumes "\<And>p. p \<in> set pixels \<Longrightarrow> 0 \<le> p \<and> p \<le> 255"
  shows "0 \<le> foldl (\<lambda>sum pixel. sum + (pixel - mean)\<^sup>2) 0 pixels / real (length pixels)
       \<and> (mean = foldl (\<lambda>sum pixel. sum + pixel) 0 pixels / real (length pixels) \<longrightarrow>
            foldl (\<lambda>sum pixel. sum + (pixel - mean)\<^sup>2) 0 pixels / real (length pixels) \<le> 255 * 255)"
proof (cases "pixels = []")
  case True
  then show ?thesis by simp
next
  case False
  define n where "n = real (length pixels)"
  have n: "0 < n" using False by (simp add: n_def)
  have nonneg: "0 \<le> sum_list (map (\<lambda>p. (p - mean)\<^sup>2) pixels)"
    by (rule sum_list_nonneg) auto
  have upper: "sum_list (map (\<lambda>p. (p - mean)\<^sup>2) pixels) \<le> (255 * 255) * n"
    if mean: "mean = foldl (\<lambda>sum pixel. sum + pixel) 0 pixels / real (length pixels)"
  proof -
    have s: "0 * real (length pixels) \<le> sum_list (map (\<lambda>p. p) pixels)
             \<and> sum_list (map (\<lambda>p. p) pixels) \<le> 255 * real (length pixels)"
      by (rule sum_list_map_bounds) (use assms in auto)
    have m: "0 \<le> mean \<and> mean \<le> 255"
      using s n by (simp add: mean foldl_add_sum_list [of "\<lambda>p. p", simplified] n_def field_simps)
    have sq: "0 \<le> (p - mean)\<^sup>2 \<and> (p - mean)\<^sup>2 \<le> 255 * 255" if "p \<in> set pixels" for p
    proof -
      have "\<bar>p - mean\<bar> \<le> 255" using assms [OF that] m by linarith
      then have "\<bar>p - mean\<bar> * \<bar>p - mean\<bar> \<le> 255 * 255"
        by (intro mult_mono) simp_all
      then show ?thesis by (simp add: power2_eq_square)
    qed
    have "0 * real (length pixels) \<le> sum_list (map (\<lambda>p. (p - mean)\<^sup>2) pixels)
          \<and> sum_list (map (\<lambda>p. (p - mean)\<^sup>2) pixels) \<le> (255 * 255) * real (length pixels)"
      by (rule sum_list_map_bounds) (use sq in auto)
    then show ?thesis by (simp add: n_def)
  qed
  show ?thesis
    using n nonneg upper by (simp add: foldl_add_sum_list n_def field_simps)
qed

lemma brightness_variance_component:
  "0 \<le> extractBrightnessFeatures sharp pb w h ! 1 \<and> extractBrightnessFeatures sharp pb w h ! 1 \<le> 1"
proof (cases "sharp CallBrightness pb 64 True")
  case None
  then show ?thesis by (simp add: extractBrightnessFeatures_def)
next
  case (Some grayBuffer)
  define pixels where "pixels = map byteVal grayBuffer"
  define mean where "mean = foldl (\<lambda>sum pixel. sum + pixel) 0 pixels / real (length pixels)"
  define variance where
    "variance = foldl (\<lambda>sum pixel. sum + (pixel - mean)\<^sup>2) 0 pixels / real (length pixels)"
  have "\<And>p. p \<in> set pixels \<Longrightarrow> 0 \<le> p \<and> p \<le> 255"
    using byteVal_range by (auto simp add: pixels_def)
  from variance_bounds [OF this, where mean = mean]
  have v: "0 \<le> variance \<and> variance \<le> 255 * 255"
    by (simp add: variance_def mean_def)
  have "extractBrightnessFeatures sharp pb w h ! 1 = variance / (255 * 255)"
    using Some
    by (simp add: extractBrightnessFeatures_def Let_def variance_def mean_def pixels_def)
  then show ?thesis using v by simp
qed


lemma length_combineFeatures_pipeline:
  "length (combineFeatures (extractFeatureSet sharp random pb)) = 1322"
  by (simp add: combineFeatures_concat extractFeatureSet_def length_extractColorHistogram
      length_extractEdgeFeatures length_extractTextureFeatures length_extractShapeFeatures
      length_extractDominantColors length_extractBrightnessFeatures
      length_extractContrastFeatures)

lemma extractAdvancedFeatures_length:
  "extractAdvancedFeatures sharp random img = Inr fs \<Longrightarrow> length fs = 1322"
  by (auto simp add: extractAdvancedFeatures_def length_combineFeatures_pipeline
      split: option.splits)

text \<open>
  Claim C1: the fingerprint of every image has \<open>1024 + 16 + 256 + 7 + 15 + 3 + 1 = 1322\<close>
  elements, and every default vector the pipeline can return has that same length.  The
  first half holds; the default vector that \<open>extractFeaturesFromUrl\<close> returns when the
  download fails has 1331 elements.
\<close>

theorem extractFeaturesFromUrl_default_length_differs:
  "length (extractFeaturesFromUrl sharp random None) = 1331
   \<and> length (combineFeatures (extractFeatureSet sharp random processedBuffer))
       = 1024 + 16 + 256 + 7 + 15 + 3 + 1
   \<and> length (extractFeaturesFromUrl sharp random None)
       \<noteq> length (combineFeatures (extractFeatureSet sharp random processedBuffer))"
  by (simp add: extractFeaturesFromUrl_def defaultFeatures_def length_combineFeatures_pipeline)






lemma pipeline_brightness_offset:
  fixes sharp random pb
  defines "q \<equiv> combineFeatures (extractFeatureSet sharp random pb)"
  shows "indexOr0 q (int (length q) - 3) = extractBrightnessFeatures sharp pb 224 224 ! 1 * 0.03"
proof -
  define A where "A = map (\<lambda>val. val * 0.3) (extractColorHistogram sharp pb 224 224)
     @ map (\<lambda>val. val * 0.15) (extractEdgeFeatures sharp pb 224 224)
     @ map (\<lambda>val. val * 0.15) (extractTextureFeatures sharp pb 224 224)
     @ map (\<lambda>val. val * 0.1) (extractShapeFeatures sharp pb 224 224)
     @ map (\<lambda>val. val * 0.25) (extractDominantColors sharp random pb 224 224)"
  define B where "B = map (\<lambda>val. val * 0.03) (extractBrightnessFeatures sharp pb 224 224)"
  define C where "C = map (\<lambda>val. val * 0.02) (extractContrastFeatures sharp pb 224 224)"
  have lA: "length A = 1318"
    by (simp add: A_def length_extractColorHistogram length_extractEdgeFeatures
        length_extractTextureFeatures length_extractShapeFeatures length_extractDominantColors)
  have lB: "length B = 3" by (simp add: B_def length_extractBrightnessFeatures)
  have lC: "length C = 1" by (simp add: C_def length_extractContrastFeatures)
  have q: "q = A @ B @ C"
    by (simp add: q_def combineFeatures_concat extractFeatureSet_def A_def B_def C_def)
  have "indexOr0 q (int (length q) - 3) = q ! 1319"
    by (simp add: indexOr0_def q lA lB lC)
  also have "\<dots> = B ! 1"
    by (simp add: q nth_append lA lB)
  also have "\<dots> = extractBrightnessFeatures sharp pb 224 224 ! 1 * 0.03"
    by (simp add: B_def length_extractBrightnessFeatures)
  finally show ?thesis .
qed

lemma toLowerCase_Fashion: "toLowerCase ''Fashion'' = ''fashion''"
  by code_simp

text \<open>
  Claim C10: for every fingerprint \<open>q\<close> that the pipeline produces, the value that
  \<open>inferCategoryFromFeatures\<close> reads at offset \<open>length q - 3\<close> is a brightness component
  weighted by 0.03, hence at most 0.03; the inferred category is always \<open>Fashion\<close>, and
  \<open>findAdvancedSimilarProducts\<close> adds the category boost to a candidate exactly when its
  category is \<open>fashion\<close> up to case.
\<close>

theorem pipeline_fingerprint_infers_Fashion:
  "(let q = combineFeatures (extractFeatureSet sharp random pb) in
      q \<noteq> []
    \<and> 0 \<le> indexOr0 q (int (length q) - 3) \<and> indexOr0 q (int (length q) - 3) \<le> 0.03
    \<and> inferCategoryFromFeatures (Some q) = Some ''Fashion''
    \<and> baseSimilarity (scoreProduct (Some q) products categoryBoost p)
        = calculateAdvancedSimilarity (Some q) (Some (colorFeatures p))
          + (if toLowerCase (category p) = ''fashion'' then categoryBoost else 0))"
proof -
  define q where "q = combineFeatures (extractFeatureSet sharp random pb)"
  have len: "length q = 1322" by (simp add: q_def length_combineFeatures_pipeline)
  then have ne: "q \<noteq> []" by auto
  have off: "indexOr0 q (int (length q) - 3) = extractBrightnessFeatures sharp pb 224 224 ! 1 * 0.03"
    unfolding q_def by (rule pipeline_brightness_offset)
  have b: "0 \<le> indexOr0 q (int (length q) - 3) \<and> indexOr0 q (int (length q) - 3) \<le> 0.03"
    using brightness_variance_component [of sharp pb 224 224] by (simp add: off)
  have inf: "inferCategoryFromFeatures (Some q) = Some ''Fashion''"
    using b ne by (simp add: inferCategoryFromFeatures_def Let_def)
  have sc: "baseSimilarity (scoreProduct (Some q) products categoryBoost p)
        = calculateAdvancedSimilarity (Some q) (Some (colorFeatures p))
          + (if toLowerCase (category p) = ''fashion'' then categoryBoost else 0)"
    by (simp add: scoreProduct_def Let_def inf toLowerCase_Fashion)
  show ?thesis
    unfolding Let_def q_def [symmetric] using ne b inf sc by simp
qed

section \<open>Ranking and matching: theorems\<close>

subsection \<open>The confidence\<close>

text \<open>
  Claim C9: the confidence of a non-empty result list is
  \<open>0.5 * min (2 * topScore) 1 + 0.3 * max 0 (1 - 10 * variance) + 0.2 * min (count / 10) 1\<close>,
  with the first entry's score as \<open>topScore\<close> and the population variance of the scores;
  the confidence of the empty list is 0.
\<close>

theorem calculateSearchConfidence_formula:
  "calculateSearchConfidence results = confidence_spec (map similarity results)
   \<and> calculateSearchConfidence [] = 0"
proof (cases results)
  case Nil
  then show ?thesis by (simp add: calculateSearchConfidence_def confidence_spec_def)
next
  case (Cons r rs)
  have avg: "foldl (\<lambda>sum p. sum + similarity p) 0 results = sum_list (map similarity results)"
    by (simp add: foldl_add_sum_list)
  have var: "foldl (\<lambda>sum p. sum + (similarity p - m)\<^sup>2) 0 results
             = (\<Sum>x\<leftarrow>map similarity results. (x - m)\<^sup>2)" for m
    by (simp add: foldl_add_sum_list comp_def)
  have top: "similarity (results ! 0) = hd (map similarity results)"
    using Cons by simp
  show ?thesis
    unfolding calculateSearchConfidence_def confidence_spec_def populationVariance_spec_def
      Let_def avg var top
    using Cons by (simp add: mult.commute)
qed

subsection \<open>The sort, the floor and the limit\<close>












subsection \<open>Two searches, evaluated\<close>































subsection \<open>What the ranking guarantees\<close>




end
